theory Spec2Isabelle
  imports Main
begin

section \<open>Data model (demo/django_docusign_demo/models.py)\<close>

text \<open>
  Timestamps are opaque points in time; only equality between them matters here.
  A Python \<open>datetime\<close> object is always truthy, so \<open>status_datetime or now()\<close> picks
  \<open>now()\<close> exactly when the argument is \<open>None\<close>.
\<close>

type_synonym timestamp = nat

text \<open>
  \<open>Signature\<close> and \<open>Signer\<close> both declare the columns \<open>status\<close> and \<open>status_datetime\<close>
  (models.py lines 30-46 and 72-88). The two columns are a parent record, so that both rows
  keep the field names of the source.
\<close>

record status_columns =
  status :: string
  status_datetime :: timestamp

text \<open>
  \<open>document\<close> is the name held by the \<open>FileField\<close> (\<open>null=True, blank=True\<close>): \<open>None\<close> or
  the empty string when no file is attached.
\<close>

record signature = status_columns +
  pk :: nat
  document :: "string option"
  document_title :: string

record signer = status_columns +
  signing_order :: nat
  full_name :: string
  email :: string
  status_details :: string

text \<open>The \<open>choices\<close> of both \<open>status\<close> columns (models.py lines 34-40 and 76-82).\<close>

definition status_choices :: "string list" where
  "status_choices = [''draft'', ''sent'', ''delivered'', ''completed'', ''declined'']"

section \<open>Exceptions and collaborators\<close>

text \<open>
  \<open>DoesNotExist\<close> is what \<open>objects.get(pk=...)\<close> raises for an unknown key,
  \<open>StopIteration\<close> what \<open>.next()\<close> raises on an exhausted generator, and \<open>Raised e\<close> any
  exception \<open>e\<close> that a collaborator raises; the views catch none of them.
\<close>

datatype exn = DoesNotExist | StopIteration | Raised string

text \<open>
  What the views call and do not define: the clock, the signature backend
  (\<open>get_docusign_documents\<close> yields document streams, named here by a handle), the
  stream's \<open>read\<close>, Django's \<open>slugify\<close>, and the file storage behind the \<open>FileField\<close>.
  \<open>storage_delete name\<close> says whether deleting \<open>name\<close> raises; \<open>storage_save files name
  content\<close> is the name under which the storage keeps the content (Django's
  \<open>Storage.save\<close> returns the actual name), or the exception it raises.
  Writing a row to the database is taken to succeed.
\<close>

record env =
  now :: timestamp
  get_docusign_documents :: "signature \<Rightarrow> exn + nat list"
  read :: "nat \<Rightarrow> exn + string"
  slugify :: "string \<Rightarrow> exn + string"
  storage_delete :: "string \<Rightarrow> exn option"
  storage_save :: "(string \<rightharpoonup> string) \<Rightarrow> string \<Rightarrow> string \<Rightarrow> exn + string"

text \<open>
  The state the callback view works on: the two tables keyed by primary key, the stored
  files, the view's in-memory \<open>self.signature\<close>, and three logs of what was asked of the
  collaborators: the signatures whose documents were fetched, the streams closed, and
  the filenames handed to \<open>document.save\<close>.
\<close>

record state =
  signers :: "nat \<rightharpoonup> signer"
  signatures :: "nat \<rightharpoonup> signature"
  files :: "string \<rightharpoonup> string"
  self_signature :: signature
  fetched :: "signature list"
  closed :: "nat list"
  save_requests :: "string list"

section \<open>Django's model and file-field operations\<close>

text \<open>Python truth of a file name: \<open>None\<close> and \<open>''\<close> are false. \<open>FieldFile.__bool__\<close> is
  \<open>bool(self.name)\<close>, so the same test decides \<open>not self.signature.document\<close>.\<close>

definition truthy :: "string option \<Rightarrow> bool" where
  "truthy name = (case name of None \<Rightarrow> False | Some n \<Rightarrow> n \<noteq> [])"

text \<open>\<open>self.signature.save()\<close>: the in-memory instance is written to its row.\<close>

definition signature_save :: "state \<Rightarrow> state" where
  "signature_save s =
     s\<lparr>signatures := (signatures s)(pk (self_signature s) \<mapsto> self_signature s)\<rparr>"

text \<open>
  \<open>self.signature.document.delete(save=False)\<close>: nothing happens on an empty field;
  otherwise the file is removed from the storage and the in-memory name becomes \<open>None\<close>.
  The row is not written.
\<close>

definition document_delete :: "env \<Rightarrow> state \<Rightarrow> exn option \<times> state" where
  "document_delete e s =
     (case document (self_signature s) of
        None \<Rightarrow> (None, s)
      | Some n \<Rightarrow>
          if n = [] then (None, s)
          else (case storage_delete e n of
                  Some x \<Rightarrow> (Some x, s)
                | None \<Rightarrow>
                    (None, s\<lparr>files := (files s)(n := None),
                              self_signature := (self_signature s)\<lparr>document := None\<rparr>\<rparr>)))"

text \<open>
  \<open>self.signature.document.save(filename, content, save=True)\<close>: the storage keeps the
  content and answers the name it used, the field takes that name, and the instance is
  written to its row.
\<close>

definition document_save :: "env \<Rightarrow> string \<Rightarrow> string \<Rightarrow> state \<Rightarrow> exn option \<times> state" where
  "document_save e filename content s =
     (let s1 = s\<lparr>save_requests := save_requests s @ [filename]\<rparr>
      in case storage_save e (files s) filename content of
           Inl x \<Rightarrow> (Some x, s1)
         | Inr n \<Rightarrow>
             (None, signature_save
                      (s1\<lparr>files := (files s)(n \<mapsto> content),
                          self_signature := (self_signature s)\<lparr>document := Some n\<rparr>\<rparr>)))"

section \<open>The callback view (demo/django_docusign_demo/views.py)\<close>

text \<open>
  \<open>update_signer\<close> (lines 199-205). An omitted \<open>status_datetime\<close> or \<open>message\<close> is \<open>None\<close>
  here; the defaults of the source are the current time and the empty string.
\<close>

definition update_signer ::
  "env \<Rightarrow> nat \<Rightarrow> string \<Rightarrow> timestamp option \<Rightarrow> string option \<Rightarrow> state \<Rightarrow> exn option \<times> state"
where
  "update_signer e signer_id st dt message s =
     (case signers s signer_id of
        None \<Rightarrow> (Some DoesNotExist, s)
      | Some sg \<Rightarrow>
          (let sg1 = sg\<lparr>status := st\<rparr>;
               sg2 = sg1\<lparr>status_datetime := (case dt of None \<Rightarrow> now e | Some t \<Rightarrow> t)\<rparr>;
               sg3 = sg2\<lparr>status_details := (case message of None \<Rightarrow> [] | Some m \<Rightarrow> m)\<rparr>
           in (None, s\<lparr>signers := (signers s)(signer_id \<mapsto> sg3)\<rparr>)))"

text \<open>
  \<open>self.signature_backend.get_docusign_documents(self.signature).next()\<close> (lines
  211-212): the first document of the backend's generator.
\<close>

definition next_document :: "env \<Rightarrow> state \<Rightarrow> (exn + nat) \<times> state" where
  "next_document e s =
     (let s1 = s\<lparr>fetched := fetched s @ [self_signature s]\<rparr>
      in case get_docusign_documents e (self_signature s) of
           Inl x \<Rightarrow> (Inl x, s1)
         | Inr [] \<Rightarrow> (Inl StopIteration, s1)
         | Inr (d # _) \<Rightarrow> (Inr d, s1))"

text \<open>Lines 215-218: the name of the present document, else the slug of the title.\<close>

definition filename_for :: "env \<Rightarrow> signature \<Rightarrow> exn + string" where
  "filename_for e sig =
     (let filename = document sig
      in if \<not> truthy filename
         then (case slugify e (document_title sig) of
                 Inl x \<Rightarrow> Inl x
               | Inr slug \<Rightarrow> Inr (slug @ ''.pdf''))
         else Inr (the filename))"

text \<open>The body of the \<open>try\<close> (lines 214-222), for the stream \<open>d\<close>.\<close>

definition replace_document :: "env \<Rightarrow> nat \<Rightarrow> state \<Rightarrow> exn option \<times> state" where
  "replace_document e d s =
     (case filename_for e (self_signature s) of
        Inl x \<Rightarrow> (Some x, s)
      | Inr filename \<Rightarrow>
          (case document_delete e s of
             (Some x, s1) \<Rightarrow> (Some x, s1)
           | (None, s1) \<Rightarrow>
               (case read e d of
                  Inl x \<Rightarrow> (Some x, s1)
                | Inr content \<Rightarrow> document_save e filename content s1)))"

text \<open>
  \<open>update_signature\<close> (lines 207-224). The \<open>finally\<close> clause closes the stream whatever
  the body of the \<open>try\<close> did, and the body's exception, if any, goes on to the caller.
  The parameter \<open>status_datetime\<close> is not used by the source.
\<close>

definition update_signature ::
  "env \<Rightarrow> string \<Rightarrow> timestamp option \<Rightarrow> state \<Rightarrow> exn option \<times> state"
where
  "update_signature e st dt s =
     (let s1 = s\<lparr>self_signature := (self_signature s)\<lparr>status := st\<rparr>\<rparr>;
          s2 = signature_save s1
      in if st = ''completed'' \<or> \<not> truthy (document (self_signature s2))
         then (case next_document e s2 of
                 (Inl x, s3) \<Rightarrow> (Some x, s3)
               | (Inr d, s3) \<Rightarrow>
                   (case replace_document e d s3 of
                      (r, s4) \<Rightarrow> (r, s4\<lparr>closed := closed s4 @ [d]\<rparr>)))
         else (None, s2))"

section \<open>An example environment and state\<close>

text \<open>
  The scenario of the specification: a Signature titled \<open>Contract Q3\<close> created from a
  template (no document yet), with one Signer. The example backend yields one stream,
  the example storage keeps every file below \<open>signatures/\<close> (the field's \<open>upload_to\<close>,
  models.py line 20), and the example \<open>slugify\<close> knows the one title of the scenario.
\<close>

definition contract :: signature where
  "contract =
     \<lparr>status = ''draft'', status_datetime = 100, pk = 7, document = None,
      document_title = ''Contract Q3''\<rparr>"

definition alice :: signer where
  "alice =
     \<lparr>status = ''completed'', status_datetime = 100, signing_order = 2,
      full_name = ''Alice'', email = ''alice@example.com'', status_details = []\<rparr>"

definition template_state :: state where
  "template_state =
     \<lparr>signers = [3 \<mapsto> alice], signatures = [7 \<mapsto> contract], files = Map.empty,
      self_signature = contract, fetched = [], closed = [], save_requests = []\<rparr>"

text \<open>The same Signature once completed, its document stored.\<close>

definition signed_contract :: signature where
  "signed_contract =
     contract\<lparr>status := ''completed'', document := Some ''signatures/contract-q3.pdf''\<rparr>"

definition signed_state :: state where
  "signed_state =
     template_state
       \<lparr>signatures := [7 \<mapsto> signed_contract],
        files := [''signatures/contract-q3.pdf'' \<mapsto> ''draft bytes''],
        self_signature := signed_contract\<rparr>"

definition demo_env :: env where
  "demo_env =
     \<lparr>now = 200,
      get_docusign_documents = (\<lambda>sig. Inr [1]),
      read = (\<lambda>d. Inr ''signed bytes''),
      slugify = (\<lambda>t. if t = ''Contract Q3'' then Inr ''contract-q3''
                     else Inl (Raised ''slugify'')),
      storage_delete = (\<lambda>n. None),
      storage_save = (\<lambda>fs n c. Inr (if take 11 n = ''signatures/'' then n
                                    else ''signatures/'' @ n))\<rparr>"

section \<open>What the file-field operations leave alone\<close>

lemmas model_defs =
  update_signature_def update_signer_def next_document_def replace_document_def
  filename_for_def document_delete_def document_save_def signature_save_def truthy_def

lemmas demo_defs =
  contract_def alice_def template_state_def signed_contract_def signed_state_def demo_env_def

lemma document_delete_logs:
  "document_delete e s = (r, s1) \<Longrightarrow>
     fetched s1 = fetched s \<and> closed s1 = closed s \<and> save_requests s1 = save_requests s
     \<and> signers s1 = signers s \<and> signatures s1 = signatures s"
  by (auto simp: document_delete_def split: option.splits if_splits)

lemma document_delete_columns:
  "document_delete e s = (r, s1) \<Longrightarrow>
     status (self_signature s1) = status (self_signature s)
     \<and> status_datetime (self_signature s1) = status_datetime (self_signature s)
     \<and> pk (self_signature s1) = pk (self_signature s)
     \<and> document_title (self_signature s1) = document_title (self_signature s)"
  by (auto simp: document_delete_def split: option.splits if_splits)

lemma document_save_logs:
  "document_save e f c s = (r, s1) \<Longrightarrow>
     fetched s1 = fetched s \<and> closed s1 = closed s
     \<and> save_requests s1 = save_requests s @ [f] \<and> signers s1 = signers s"
  by (auto simp: document_save_def signature_save_def Let_def split: sum.splits)

lemma document_save_columns:
  "document_save e f c s = (r, s1) \<Longrightarrow>
     status (self_signature s1) = status (self_signature s)
     \<and> status_datetime (self_signature s1) = status_datetime (self_signature s)
     \<and> pk (self_signature s1) = pk (self_signature s)
     \<and> document_title (self_signature s1) = document_title (self_signature s)"
  by (auto simp: document_save_def signature_save_def Let_def split: sum.splits)

lemma replace_document_logs:
  "replace_document e d s = (r, s1) \<Longrightarrow>
     fetched s1 = fetched s \<and> closed s1 = closed s \<and> signers s1 = signers s"
  by (auto simp: replace_document_def split: sum.splits option.splits prod.splits
           dest!: document_delete_logs document_save_logs)

lemma replace_document_columns:
  "replace_document e d s = (r, s1) \<Longrightarrow>
     status (self_signature s1) = status (self_signature s)
     \<and> status_datetime (self_signature s1) = status_datetime (self_signature s)
     \<and> pk (self_signature s1) = pk (self_signature s)
     \<and> document_title (self_signature s1) = document_title (self_signature s)"
  by (auto simp: replace_document_def split: sum.splits option.splits prod.splits
           dest!: document_delete_columns document_save_columns)

text \<open>The row of the signature keeps its \<open>status\<close> and \<open>status_datetime\<close> through the
  replacement of the document, whether the replacement writes the row or not.\<close>

lemma replace_document_row:
  "replace_document e d s = (r, s1) \<Longrightarrow>
   map_option status (signatures s (pk (self_signature s))) = Some (status (self_signature s)) \<Longrightarrow>
   map_option status (signatures s1 (pk (self_signature s))) = Some (status (self_signature s))"
  by (auto simp: replace_document_def document_save_def document_delete_def signature_save_def
                 Let_def
           split: sum.splits option.splits prod.splits if_splits)

lemma replace_document_row_datetime:
  "replace_document e d s = (r, s1) \<Longrightarrow>
   map_option status_datetime (signatures s (pk (self_signature s)))
     = Some (status_datetime (self_signature s)) \<Longrightarrow>
   map_option status_datetime (signatures s1 (pk (self_signature s)))
     = Some (status_datetime (self_signature s))"
  by (auto simp: replace_document_def document_save_def document_delete_def signature_save_def
                 Let_def
           split: sum.splits option.splits prod.splits if_splits)

lemma update_signature_status:
  "status (self_signature (snd (update_signature e st dt s))) = st
   \<and> map_option status (signatures (snd (update_signature e st dt s)) (pk (self_signature s)))
       = Some st"
  by (auto simp: update_signature_def next_document_def signature_save_def Let_def
           split: sum.splits list.splits prod.splits
           dest: replace_document_columns replace_document_row)

lemma update_signature_pk:
  "pk (self_signature (snd (update_signature e st dt s))) = pk (self_signature s)"
  by (auto simp: update_signature_def next_document_def signature_save_def Let_def
           split: sum.splits list.splits prod.splits
           dest: replace_document_columns)

text \<open>
  A run of the \<open>try\<close> body that returns has handed the filename of lines 215-218 to
  \<open>document.save\<close>, with the bytes read from the stream; the storage, from which the old
  file is gone, keeps them under the name it answers, and the field and the row take
  that name.
\<close>

lemma replace_document_store:
  assumes "replace_document e d s = (None, s1)"
  shows "\<exists>f c n. filename_for e (self_signature s) = Inr f \<and> read e d = Inr c \<and>
           storage_save e
             (if truthy (document (self_signature s))
              then (files s)(the (document (self_signature s)) := None) else files s) f c
             = Inr n \<and>
           save_requests s1 = save_requests s @ [f] \<and>
           files s1 =
             (if truthy (document (self_signature s))
              then (files s)(the (document (self_signature s)) := None) else files s)(n \<mapsto> c) \<and>
           self_signature s1 = (self_signature s)\<lparr>document := Some n\<rparr> \<and>
           signatures s1 =
             (signatures s)(pk (self_signature s) \<mapsto> (self_signature s)\<lparr>document := Some n\<rparr>)"
  using assms
  by (auto simp: replace_document_def document_delete_def document_save_def signature_save_def
                 truthy_def Let_def
           split: sum.splits option.splits prod.splits if_splits)

lemma update_signature_store:
  assumes "st = ''completed'' \<or> \<not> truthy (document (self_signature s))"
      and "update_signature e st dt s = (None, s1)"
  shows "\<exists>f c n d ds.
           filename_for e ((self_signature s)\<lparr>status := st\<rparr>) = Inr f \<and>
           get_docusign_documents e ((self_signature s)\<lparr>status := st\<rparr>) = Inr (d # ds) \<and>
           read e d = Inr c \<and>
           storage_save e
             (if truthy (document (self_signature s))
              then (files s)(the (document (self_signature s)) := None) else files s) f c
             = Inr n \<and>
           save_requests s1 = save_requests s @ [f] \<and>
           files s1 =
             (if truthy (document (self_signature s))
              then (files s)(the (document (self_signature s)) := None) else files s)(n \<mapsto> c) \<and>
           self_signature s1 = (self_signature s)\<lparr>status := st, document := Some n\<rparr> \<and>
           signatures s1 = (signatures s)(pk (self_signature s) \<mapsto>
                              (self_signature s)\<lparr>status := st, document := Some n\<rparr>)"
  using assms
  by (auto simp: update_signature_def next_document_def signature_save_def Let_def
           split: sum.splits list.splits prod.splits dest!: replace_document_store)

text \<open>The scenario of the specification, run twice.\<close>

lemma first_call:
  "update_signature demo_env ''completed'' None template_state =
     (None,
      template_state
        \<lparr>signatures := [7 \<mapsto> signed_contract],
         files := [''signatures/contract-q3.pdf'' \<mapsto> ''signed bytes''],
         self_signature := signed_contract,
         fetched := [contract\<lparr>status := ''completed''\<rparr>],
         closed := [1],
         save_requests := [''contract-q3.pdf'']\<rparr>)"
  by (simp add: model_defs demo_defs)

lemma second_call:
  "update_signature demo_env ''completed'' None
     (snd (update_signature demo_env ''completed'' None template_state)) =
     (None,
      template_state
        \<lparr>signatures := [7 \<mapsto> signed_contract],
         files := [''signatures/contract-q3.pdf'' \<mapsto> ''signed bytes''],
         self_signature := signed_contract,
         fetched := [contract\<lparr>status := ''completed''\<rparr>, signed_contract],
         closed := [1, 1],
         save_requests := [''contract-q3.pdf'', ''signatures/contract-q3.pdf'']\<rparr>)"
  by (simp add: first_call) (simp add: model_defs demo_defs)

section \<open>When the document is fetched\<close>

text \<open>
  C1. \<open>update_signature\<close> asks the backend for the documents exactly when the new status
  is \<open>completed\<close> or the signature has no document: the log of fetches grows by the
  signature (its status already set) in that case and is unchanged otherwise. In
  particular, status \<open>sent\<close> on a signature whose document is present fetches nothing.
\<close>

theorem update_signature_fetch_iff:
  "(fetched (snd (update_signature e st dt s)) =
      (if st = ''completed'' \<or> \<not> truthy (document (self_signature s))
       then fetched s @ [(self_signature s)\<lparr>status := st\<rparr>] else fetched s))
   \<and> ((fetched (snd (update_signature e st dt s)) \<noteq> fetched s) =
        (st = ''completed'' \<or> \<not> truthy (document (self_signature s))))
   \<and> (truthy (document (self_signature s)) \<longrightarrow>
        fetched (snd (update_signature e ''sent'' dt s)) = fetched s)"
proof -
  have eq: "\<And>st. fetched (snd (update_signature e st dt s)) =
      (if st = ''completed'' \<or> \<not> truthy (document (self_signature s))
       then fetched s @ [(self_signature s)\<lparr>status := st\<rparr>] else fetched s)"
    by (auto simp: update_signature_def next_document_def signature_save_def Let_def
             split: sum.splits list.splits prod.splits dest!: replace_document_logs)
  show ?thesis
    by (simp add: eq)
qed

theorem update_signature_fetch_iff_witness:
  "truthy (document (self_signature signed_state)) \<and>
   fetched (snd (update_signature demo_env ''sent'' None signed_state)) = [] \<and>
   fetched (snd (update_signature demo_env ''completed'' None signed_state)) = [signed_contract] \<and>
   fetched (snd (update_signature demo_env ''sent'' None template_state))
     = [contract\<lparr>status := ''sent''\<rparr>]"
  using update_signature_fetch_iff [of demo_env "''sent''" None signed_state]
        update_signature_fetch_iff [of demo_env "''completed''" None signed_state]
        update_signature_fetch_iff [of demo_env "''sent''" None template_state]
  by (simp add: demo_defs truthy_def)

section \<open>Updating a signer\<close>

text \<open>
  C2. For an existing Signer, \<open>update_signer\<close> returns normally and the only change to
  the state is the Signer's row: its \<open>status\<close> is the given one, its \<open>status_datetime\<close>
  the given timestamp or the current time when omitted, its \<open>status_details\<close> the given
  message or the empty string when omitted; the other columns of the row are kept.
\<close>

theorem update_signer_sets_fields:
  "signers s signer_id = Some sg \<Longrightarrow>
     update_signer e signer_id st dt message s =
       (None,
        s\<lparr>signers := (signers s)(signer_id \<mapsto>
             sg\<lparr>status := st,
                status_datetime := (case dt of None \<Rightarrow> now e | Some t \<Rightarrow> t),
                status_details := (case message of None \<Rightarrow> [] | Some m \<Rightarrow> m)\<rparr>)\<rparr>)"
  by (simp add: update_signer_def)

theorem update_signer_sets_fields_witness:
  "signers template_state 3 = Some alice \<and>
   update_signer demo_env 3 ''declined'' (Some 150) (Some ''recipient refused'') template_state
     = (None, template_state\<lparr>signers := [3 \<mapsto>
          alice\<lparr>status := ''declined'', status_datetime := 150,
                status_details := ''recipient refused''\<rparr>]\<rparr>) \<and>
   update_signer demo_env 3 ''sent'' None None template_state
     = (None, template_state\<lparr>signers := [3 \<mapsto>
          alice\<lparr>status := ''sent'', status_datetime := 200, status_details := []\<rparr>]\<rparr>)"
proof -
  have h: "signers template_state 3 = Some alice"
    by (simp add: template_state_def)
  from update_signer_sets_fields
         [OF h, of demo_env "''declined''" "Some 150" "Some ''recipient refused''"]
       update_signer_sets_fields [OF h, of demo_env "''sent''" None None] h
  show ?thesis
    by (simp add: template_state_def demo_env_def)
qed

text \<open>
  C7. When \<open>signer_id\<close> is the key of no Signer, \<open>update_signer\<close> raises \<open>DoesNotExist\<close>
  and the state is the one it started from: no Signer row, no Signature row, no file and
  no log has changed.
\<close>

theorem update_signer_unknown:
  "signers s signer_id = None \<Longrightarrow>
     update_signer e signer_id st dt message s = (Some DoesNotExist, s)"
  by (simp add: update_signer_def)

theorem update_signer_unknown_witness:
  "signers template_state 4 = None \<and>
   update_signer demo_env 4 ''sent'' None None template_state
     = (Some DoesNotExist, template_state)"
proof -
  have h: "signers template_state 4 = None"
    by (simp add: template_state_def)
  from update_signer_unknown [OF h] h show ?thesis
    by simp
qed

section \<open>No check on the status value\<close>

text \<open>
  The status \<open>voided\<close> is none of the five \<open>choices\<close>, and both handlers take it: they
  return normally and the rows hold \<open>voided\<close> afterwards. So C3 does not hold as stated.
\<close>

theorem unknown_status_accepted:
  "''voided'' \<notin> set status_choices \<and>
   fst (update_signer demo_env 3 ''voided'' None None template_state) = None \<and>
   map_option status (signers (snd (update_signer demo_env 3 ''voided'' None None template_state)) 3)
     = Some ''voided'' \<and>
   fst (update_signature demo_env ''voided'' None signed_state) = None \<and>
   map_option status (signatures (snd (update_signature demo_env ''voided'' None signed_state)) 7)
     = Some ''voided''"
  by (simp add: model_defs demo_defs status_choices_def)

text \<open>
  C3, amended. The handlers do not compare the status with the \<open>choices\<close>: for every
  string \<open>st\<close>, \<open>update_signer\<close> on an existing Signer returns normally and the Signer's
  row holds \<open>st\<close>; \<open>update_signature\<close> leaves \<open>st\<close> in \<open>self.signature\<close> and in its row, and
  returns normally whenever it fetches no document.
\<close>

theorem status_written_unchecked:
  "(signers s signer_id = Some sg \<longrightarrow>
      fst (update_signer e signer_id st dt message s) = None \<and>
      map_option status (signers (snd (update_signer e signer_id st dt message s)) signer_id)
        = Some st)
   \<and> status (self_signature (snd (update_signature e st dt s))) = st
   \<and> map_option status (signatures (snd (update_signature e st dt s)) (pk (self_signature s)))
       = Some st
   \<and> (st \<noteq> ''completed'' \<and> truthy (document (self_signature s)) \<longrightarrow>
        fst (update_signature e st dt s) = None)"
proof -
  have a: "signers s signer_id = Some sg \<longrightarrow>
      fst (update_signer e signer_id st dt message s) = None \<and>
      map_option status (signers (snd (update_signer e signer_id st dt message s)) signer_id)
        = Some st"
    by (simp add: update_signer_def)
  have b: "st \<noteq> ''completed'' \<and> truthy (document (self_signature s)) \<longrightarrow>
        fst (update_signature e st dt s) = None"
    by (simp add: update_signature_def signature_save_def)
  from a b update_signature_status [of e st dt s] show ?thesis
    by blast
qed

theorem status_written_unchecked_witness:
  "signers signed_state 3 = Some alice \<and>
   ''bogus'' \<noteq> ''completed'' \<and> truthy (document (self_signature signed_state)) \<and>
   fst (update_signer demo_env 3 ''bogus'' None None signed_state) = None \<and>
   map_option status (signers (snd (update_signer demo_env 3 ''bogus'' None None signed_state)) 3)
     = Some ''bogus'' \<and>
   status (self_signature (snd (update_signature demo_env ''bogus'' None signed_state)))
     = ''bogus'' \<and>
   map_option status (signatures (snd (update_signature demo_env ''bogus'' None signed_state)) 7)
     = Some ''bogus'' \<and>
   fst (update_signature demo_env ''bogus'' None signed_state) = None"
  using status_written_unchecked [of signed_state 3 alice demo_env "''bogus''" None None]
  by (simp add: demo_defs truthy_def)

section \<open>No order on the statuses\<close>

text \<open>
  A Signer and a Signature whose status is \<open>completed\<close> both take the status \<open>sent\<close>: the
  handlers return normally and the rows hold \<open>sent\<close> afterwards. So C8 does not hold as
  stated.
\<close>

theorem completed_to_sent_accepted:
  "map_option status (signers signed_state 3) = Some ''completed'' \<and>
   fst (update_signer demo_env 3 ''sent'' None None signed_state) = None \<and>
   map_option status (signers (snd (update_signer demo_env 3 ''sent'' None None signed_state)) 3)
     = Some ''sent'' \<and>
   map_option status (signatures signed_state 7) = Some ''completed'' \<and>
   status (self_signature signed_state) = ''completed'' \<and>
   fst (update_signature demo_env ''sent'' None signed_state) = None \<and>
   status (self_signature (snd (update_signature demo_env ''sent'' None signed_state))) = ''sent'' \<and>
   map_option status (signatures (snd (update_signature demo_env ''sent'' None signed_state)) 7)
     = Some ''sent''"
  by (simp add: model_defs demo_defs)

text \<open>
  C8, amended. The handlers put no order on the statuses. Whatever status \<open>a\<close> a first
  callback has applied, a second callback with any status \<open>b\<close> is taken: for a Signer both
  calls return normally and the row holds \<open>a\<close>, then \<open>b\<close>; for the Signature the instance
  and its row hold \<open>a\<close>, then \<open>b\<close>, and the second call returns normally whenever it
  fetches no document.
\<close>

theorem any_transition_accepted:
  "(signers s signer_id = Some sg \<longrightarrow>
      (let r1 = update_signer e1 signer_id a dt1 m1 s;
           r2 = update_signer e2 signer_id b dt2 m2 (snd r1)
       in fst r1 = None \<and> map_option status (signers (snd r1) signer_id) = Some a \<and>
          fst r2 = None \<and> map_option status (signers (snd r2) signer_id) = Some b))
   \<and> (let r1 = update_signature e1 a dt1 s;
           r2 = update_signature e2 b dt2 (snd r1)
       in status (self_signature (snd r1)) = a \<and>
          map_option status (signatures (snd r1) (pk (self_signature s))) = Some a \<and>
          status (self_signature (snd r2)) = b \<and>
          map_option status (signatures (snd r2) (pk (self_signature s))) = Some b \<and>
          (b \<noteq> ''completed'' \<and> truthy (document (self_signature (snd r1))) \<longrightarrow>
             fst r2 = None))"
proof -
  let ?s1 = "snd (update_signature e1 a dt1 s)"
  have signer_part: "signers s signer_id = Some sg \<longrightarrow>
      (let r1 = update_signer e1 signer_id a dt1 m1 s;
           r2 = update_signer e2 signer_id b dt2 m2 (snd r1)
       in fst r1 = None \<and> map_option status (signers (snd r1) signer_id) = Some a \<and>
          fst r2 = None \<and> map_option status (signers (snd r2) signer_id) = Some b)"
    by (simp add: update_signer_def)
  have k: "pk (self_signature ?s1) = pk (self_signature s)"
    by (rule update_signature_pk)
  have first: "status (self_signature ?s1) = a \<and>
      map_option status (signatures ?s1 (pk (self_signature s))) = Some a"
    by (rule update_signature_status)
  have second: "status (self_signature (snd (update_signature e2 b dt2 ?s1))) = b \<and>
      map_option status (signatures (snd (update_signature e2 b dt2 ?s1)) (pk (self_signature s)))
        = Some b"
    using update_signature_status [of e2 b dt2 ?s1] k by simp
  have quiet: "b \<noteq> ''completed'' \<and> truthy (document (self_signature ?s1)) \<longrightarrow>
      fst (update_signature e2 b dt2 ?s1) = None"
    by (simp add: update_signature_def signature_save_def)
  from signer_part first second quiet show ?thesis
    by (simp add: Let_def)
qed

theorem any_transition_accepted_witness:
  "signers template_state 3 = Some alice \<and>
   map_option status
     (signers (snd (update_signer demo_env 3 ''draft'' None None
                 (snd (update_signer demo_env 3 ''declined'' None None template_state)))) 3)
     = Some ''draft'' \<and>
   map_option status
     (signatures (snd (update_signature demo_env ''sent'' None
                    (snd (update_signature demo_env ''completed'' None template_state)))) 7)
     = Some ''sent'' \<and>
   fst (update_signature demo_env ''sent'' None
          (snd (update_signature demo_env ''completed'' None template_state))) = None"
proof -
  have doc: "truthy (document (self_signature
               (snd (update_signature demo_env ''completed'' None template_state))))"
    by (simp add: first_call) (simp add: demo_defs truthy_def)
  from any_transition_accepted [of template_state 3 alice demo_env "''declined''" None None
                                   demo_env "''draft''" None None]
       any_transition_accepted [of template_state 3 alice demo_env "''completed''" None None
                                   demo_env "''sent''" None None]
       doc
  show ?thesis
    by (simp add: Let_def demo_defs)
qed

section \<open>The filename of the stored document\<close>

text \<open>
  In the example the signature has no document and the slug of its title is
  \<open>contract-q3\<close>, yet the document is stored as \<open>signatures/contract-q3.pdf\<close>: the
  storage answers a name below the field's \<open>upload_to\<close> directory (models.py line 20),
  and nothing is stored as \<open>contract-q3.pdf\<close>. With a storage that joins that directory
  to whatever name it is given, a document stored as \<open>signatures/contract-q3.pdf\<close> is
  stored again one directory deeper and no longer under its former name. The stored
  filename is the storage's answer, so C4 does not hold as stated.
\<close>

theorem stored_name_not_slug:
  "\<not> truthy (document (self_signature template_state)) \<and>
   slugify demo_env (document_title (self_signature template_state)) = Inr ''contract-q3'' \<and>
   fst (update_signature demo_env ''completed'' None template_state) = None \<and>
   document (self_signature (snd (update_signature demo_env ''completed'' None template_state)))
     = Some ''signatures/contract-q3.pdf'' \<and>
   map_option document
     (signatures (snd (update_signature demo_env ''completed'' None template_state)) 7)
     = Some (Some ''signatures/contract-q3.pdf'') \<and>
   files (snd (update_signature demo_env ''completed'' None template_state))
     ''signatures/contract-q3.pdf'' = Some ''signed bytes'' \<and>
   files (snd (update_signature demo_env ''completed'' None template_state))
     (''contract-q3'' @ ''.pdf'') = None \<and>
   ''signatures/contract-q3.pdf'' \<noteq> ''contract-q3'' @ ''.pdf'' \<and>
   document (self_signature signed_state) = Some ''signatures/contract-q3.pdf'' \<and>
   fst (update_signature (demo_env\<lparr>storage_save := (\<lambda>fs n c. Inr (''signatures/'' @ n))\<rparr>)
          ''completed'' None signed_state) = None \<and>
   document (self_signature
      (snd (update_signature (demo_env\<lparr>storage_save := (\<lambda>fs n c. Inr (''signatures/'' @ n))\<rparr>)
          ''completed'' None signed_state)))
     = Some ''signatures/signatures/contract-q3.pdf'' \<and>
   files (snd (update_signature (demo_env\<lparr>storage_save := (\<lambda>fs n c. Inr (''signatures/'' @ n))\<rparr>)
          ''completed'' None signed_state)) ''signatures/contract-q3.pdf'' = None"
  by (simp add: first_call) (simp add: model_defs demo_defs)

text \<open>
  C4, amended. When \<open>update_signature\<close> fetches a document and returns, the filename it
  has handed to \<open>document.save\<close> is the name of the document that was present, and
  otherwise the slug of the title followed by \<open>.pdf\<close>; the bytes read from the fetched
  stream are stored, once the old file is gone, under the name \<open>F\<close> that the storage
  answers for that filename, and the field and the row hold \<open>F\<close>. A later call with
  status \<open>completed\<close> that returns has handed \<open>F\<close> itself to \<open>document.save\<close>, without
  slugifying the title again, and has stored the new bytes under the name the storage
  answers for \<open>F\<close>: under \<open>F\<close> again whenever the storage answers \<open>F\<close> for \<open>F\<close>.
\<close>

theorem stored_filename:
  assumes trig: "st = ''completed'' \<or> \<not> truthy (document (self_signature s))"
      and run1: "update_signature e st dt s = (None, s1)"
      and name: "document (self_signature s1) = Some F" "F \<noteq> []"
      and run2: "update_signature e2 ''completed'' dt2 s1 = (None, s2)"
  shows "(\<exists>f c d ds.
            (truthy (document (self_signature s)) \<longrightarrow> f = the (document (self_signature s))) \<and>
            (\<not> truthy (document (self_signature s)) \<longrightarrow>
               (\<exists>slug. slugify e (document_title (self_signature s)) = Inr slug \<and>
                       f = slug @ ''.pdf'')) \<and>
            save_requests s1 = save_requests s @ [f] \<and>
            get_docusign_documents e ((self_signature s)\<lparr>status := st\<rparr>) = Inr (d # ds) \<and>
            read e d = Inr c \<and>
            storage_save e
              (if truthy (document (self_signature s))
               then (files s)(the (document (self_signature s)) := None) else files s) f c = Inr F \<and>
            files s1 =
              (if truthy (document (self_signature s))
               then (files s)(the (document (self_signature s)) := None) else files s)(F \<mapsto> c))
       \<and> self_signature s1 = (self_signature s)\<lparr>status := st, document := Some F\<rparr>
       \<and> signatures s1 (pk (self_signature s)) = Some (self_signature s1)
       \<and> save_requests s2 = save_requests s1 @ [F]
       \<and> (\<exists>c2 F2.
            storage_save e2 ((files s1)(F := None)) F c2 = Inr F2 \<and>
            document (self_signature s2) = Some F2 \<and>
            files s2 = ((files s1)(F := None))(F2 \<mapsto> c2) \<and>
            signatures s2 (pk (self_signature s)) = Some (self_signature s2))
       \<and> ((\<forall>fs c. storage_save e2 fs F c = Inr F) \<longrightarrow>
            document (self_signature s2) = Some F \<and>
            map_option document (signatures s2 (pk (self_signature s))) = Some (Some F) \<and>
            (\<exists>c2. files s2 F = Some c2))"
proof -
  let ?left = "if truthy (document (self_signature s))
               then (files s)(the (document (self_signature s)) := None) else files s"
  from update_signature_store [OF trig run1]
  obtain f c n d ds where
        f: "filename_for e ((self_signature s)\<lparr>status := st\<rparr>) = Inr f"
    and g: "get_docusign_documents e ((self_signature s)\<lparr>status := st\<rparr>) = Inr (d # ds)"
    and c: "read e d = Inr c"
    and n: "storage_save e ?left f c = Inr n"
    and r1: "save_requests s1 = save_requests s @ [f]"
    and fs1: "files s1 = ?left(n \<mapsto> c)"
    and sig1: "self_signature s1 = (self_signature s)\<lparr>status := st, document := Some n\<rparr>"
    and row1: "signatures s1 = (signatures s)(pk (self_signature s) \<mapsto>
                              (self_signature s)\<lparr>status := st, document := Some n\<rparr>)"
    by blast
  have nF: "n = F"
    using sig1 name(1) by simp
  have present: "truthy (document (self_signature s)) \<longrightarrow> f = the (document (self_signature s))"
    using f by (auto simp: filename_for_def Let_def)
  have absent: "\<not> truthy (document (self_signature s)) \<longrightarrow>
      (\<exists>slug. slugify e (document_title (self_signature s)) = Inr slug \<and> f = slug @ ''.pdf'')"
    using f by (auto simp: filename_for_def Let_def split: sum.splits if_splits)
  have first: "\<exists>f c d ds.
            (truthy (document (self_signature s)) \<longrightarrow> f = the (document (self_signature s))) \<and>
            (\<not> truthy (document (self_signature s)) \<longrightarrow>
               (\<exists>slug. slugify e (document_title (self_signature s)) = Inr slug \<and>
                       f = slug @ ''.pdf'')) \<and>
            save_requests s1 = save_requests s @ [f] \<and>
            get_docusign_documents e ((self_signature s)\<lparr>status := st\<rparr>) = Inr (d # ds) \<and>
            read e d = Inr c \<and>
            storage_save e ?left f c = Inr F \<and>
            files s1 = ?left(F \<mapsto> c)"
    using present absent r1 g c n fs1 nF by blast
  have inst1: "self_signature s1 = (self_signature s)\<lparr>status := st, document := Some F\<rparr>"
    using sig1 nF by simp
  have rowat1: "signatures s1 (pk (self_signature s)) = Some (self_signature s1)"
    using row1 sig1 by simp
  have k: "pk (self_signature s1) = pk (self_signature s)"
    using sig1 by simp
  have tr: "truthy (document (self_signature s1))"
    using name by (simp add: truthy_def)
  from update_signature_store [OF _ run2]
  obtain f2 c2 n2 d2 ds2 where
        f2: "filename_for e2 ((self_signature s1)\<lparr>status := ''completed''\<rparr>) = Inr f2"
    and n2: "storage_save e2
               (if truthy (document (self_signature s1))
                then (files s1)(the (document (self_signature s1)) := None) else files s1) f2 c2
               = Inr n2"
    and r2: "save_requests s2 = save_requests s1 @ [f2]"
    and fs2: "files s2 =
               (if truthy (document (self_signature s1))
                then (files s1)(the (document (self_signature s1)) := None) else files s1)
               (n2 \<mapsto> c2)"
    and sig2: "self_signature s2 = (self_signature s1)\<lparr>status := ''completed'', document := Some n2\<rparr>"
    and row2: "signatures s2 = (signatures s1)(pk (self_signature s1) \<mapsto>
                              (self_signature s1)\<lparr>status := ''completed'', document := Some n2\<rparr>)"
    by blast
  have f2F: "f2 = F"
    using f2 name by (simp add: filename_for_def truthy_def)
  have left1: "(if truthy (document (self_signature s1))
                then (files s1)(the (document (self_signature s1)) := None) else files s1)
               = (files s1)(F := None)"
    using tr name by simp
  have req2: "save_requests s2 = save_requests s1 @ [F]"
    using r2 f2F by simp
  have rowat2: "signatures s2 (pk (self_signature s)) = Some (self_signature s2)"
    using row2 sig2 k by simp
  have second: "\<exists>c2 F2.
            storage_save e2 ((files s1)(F := None)) F c2 = Inr F2 \<and>
            document (self_signature s2) = Some F2 \<and>
            files s2 = ((files s1)(F := None))(F2 \<mapsto> c2) \<and>
            signatures s2 (pk (self_signature s)) = Some (self_signature s2)"
    using n2 f2F left1 fs2 sig2 rowat2 by auto
  have same: "(\<forall>fs c. storage_save e2 fs F c = Inr F) \<longrightarrow>
            document (self_signature s2) = Some F \<and>
            map_option document (signatures s2 (pk (self_signature s))) = Some (Some F) \<and>
            (\<exists>c2. files s2 F = Some c2)"
  proof
    assume all: "\<forall>fs c. storage_save e2 fs F c = Inr F"
    have "n2 = F"
      using n2 f2F all by simp
    with fs2 sig2 rowat2 show "document (self_signature s2) = Some F \<and>
            map_option document (signatures s2 (pk (self_signature s))) = Some (Some F) \<and>
            (\<exists>c2. files s2 F = Some c2)"
      by simp
  qed
  from first inst1 rowat1 req2 second same show ?thesis
    by blast
qed

theorem stored_filename_witness:
  "\<not> truthy (document (self_signature template_state)) \<and>
   fst (update_signature demo_env ''completed'' None template_state) = None \<and>
   document (self_signature (snd (update_signature demo_env ''completed'' None template_state)))
     = Some ''signatures/contract-q3.pdf'' \<and>
   ''signatures/contract-q3.pdf'' \<noteq> [] \<and>
   fst (update_signature demo_env ''completed'' None
          (snd (update_signature demo_env ''completed'' None template_state))) = None \<and>
   (\<forall>fs c. storage_save demo_env fs ''signatures/contract-q3.pdf'' c
             = Inr ''signatures/contract-q3.pdf'') \<and>
   save_requests (snd (update_signature demo_env ''completed'' None template_state))
     = [''contract-q3.pdf''] \<and>
   save_requests (snd (update_signature demo_env ''completed'' None
          (snd (update_signature demo_env ''completed'' None template_state))))
     = [''contract-q3.pdf'', ''signatures/contract-q3.pdf''] \<and>
   document (self_signature (snd (update_signature demo_env ''completed'' None
          (snd (update_signature demo_env ''completed'' None template_state)))))
     = Some ''signatures/contract-q3.pdf'' \<and>
   map_option document (signatures (snd (update_signature demo_env ''completed'' None
          (snd (update_signature demo_env ''completed'' None template_state)))) 7)
     = Some (Some ''signatures/contract-q3.pdf'') \<and>
   files (snd (update_signature demo_env ''completed'' None
          (snd (update_signature demo_env ''completed'' None template_state))))
     ''signatures/contract-q3.pdf'' = Some ''signed bytes''"
proof -
  let ?s1 = "snd (update_signature demo_env ''completed'' None template_state)"
  let ?s2 = "snd (update_signature demo_env ''completed'' None ?s1)"
  have run1: "update_signature demo_env ''completed'' None template_state = (None, ?s1)"
    by (simp add: first_call)
  have run2: "update_signature demo_env ''completed'' None ?s1 = (None, ?s2)"
    by (simp add: second_call)
  have name: "document (self_signature ?s1) = Some ''signatures/contract-q3.pdf''"
    by (simp add: first_call) (simp add: demo_defs)
  have absent: "\<not> truthy (document (self_signature template_state))"
    by (simp add: demo_defs truthy_def)
  have answers: "\<forall>fs c. storage_save demo_env fs ''signatures/contract-q3.pdf'' c
                   = Inr ''signatures/contract-q3.pdf''"
    by (simp add: demo_defs)
  have ok1: "fst (update_signature demo_env ''completed'' None template_state) = None"
    by (simp add: first_call)
  have ok2: "fst (update_signature demo_env ''completed'' None ?s1) = None"
    by (simp add: second_call)
  have req1: "save_requests ?s1 = [''contract-q3.pdf'']"
    by (simp add: first_call)
  have bytes: "files ?s2 ''signatures/contract-q3.pdf'' = Some ''signed bytes''"
    by (simp add: second_call)
  have key: "pk (self_signature template_state) = 7"
    by (simp add: demo_defs)
  from stored_filename [OF _ run1 name _ run2] answers
  have "save_requests ?s2 = save_requests ?s1 @ [''signatures/contract-q3.pdf''] \<and>
        document (self_signature ?s2) = Some ''signatures/contract-q3.pdf'' \<and>
        map_option document (signatures ?s2 (pk (self_signature template_state)))
          = Some (Some ''signatures/contract-q3.pdf'')"
    by simp
  with absent ok1 name ok2 answers req1 bytes key show ?thesis
    by simp
qed

section \<open>The stream is closed\<close>

text \<open>
  C5. Once \<open>update_signature\<close> has obtained a stream \<open>d\<close> from the backend, it closes \<open>d\<close>,
  once, whatever the environment does afterwards: \<open>slugify\<close>, the deletion of the old
  file, the read of the stream and the storing of the new bytes may each raise.
\<close>

theorem stream_closed_on_every_path:
  "st = ''completed'' \<or> \<not> truthy (document (self_signature s)) \<Longrightarrow>
   get_docusign_documents e ((self_signature s)\<lparr>status := st\<rparr>) = Inr (d # ds) \<Longrightarrow>
   closed (snd (update_signature e st dt s)) = closed s @ [d]"
  by (auto simp: update_signature_def next_document_def signature_save_def Let_def
           split: sum.splits list.splits prod.splits dest!: replace_document_logs)

theorem stream_closed_on_every_path_witness:
  "get_docusign_documents (demo_env\<lparr>storage_save := (\<lambda>fs n c. Inl (Raised ''disk full''))\<rparr>)
     ((self_signature signed_state)\<lparr>status := ''completed''\<rparr>) = Inr [1] \<and>
   fst (update_signature (demo_env\<lparr>storage_save := (\<lambda>fs n c. Inl (Raised ''disk full''))\<rparr>)
          ''completed'' None signed_state) = Some (Raised ''disk full'') \<and>
   closed (snd (update_signature (demo_env\<lparr>storage_save := (\<lambda>fs n c. Inl (Raised ''disk full''))\<rparr>)
          ''completed'' None signed_state)) = [1] \<and>
   fst (update_signature (demo_env\<lparr>storage_delete := (\<lambda>n. Some (Raised ''read-only''))\<rparr>)
          ''completed'' None signed_state) = Some (Raised ''read-only'') \<and>
   closed (snd (update_signature (demo_env\<lparr>storage_delete := (\<lambda>n. Some (Raised ''read-only''))\<rparr>)
          ''completed'' None signed_state)) = [1] \<and>
   fst (update_signature (demo_env\<lparr>slugify := (\<lambda>t. Inl (Raised ''slugify''))\<rparr>)
          ''sent'' None template_state) = Some (Raised ''slugify'') \<and>
   closed (snd (update_signature (demo_env\<lparr>slugify := (\<lambda>t. Inl (Raised ''slugify''))\<rparr>)
          ''sent'' None template_state)) = [1]"
proof -
  let ?e = "demo_env\<lparr>storage_save := (\<lambda>fs n c. Inl (Raised ''disk full''))\<rparr>"
  let ?e2 = "demo_env\<lparr>storage_delete := (\<lambda>n. Some (Raised ''read-only''))\<rparr>"
  let ?e3 = "demo_env\<lparr>slugify := (\<lambda>t. Inl (Raised ''slugify''))\<rparr>"
  have h: "get_docusign_documents ?e ((self_signature signed_state)\<lparr>status := ''completed''\<rparr>)
             = Inr (1 # [])"
    by (simp add: demo_env_def)
  have h2: "get_docusign_documents ?e2 ((self_signature signed_state)\<lparr>status := ''completed''\<rparr>)
             = Inr (1 # [])"
    by (simp add: demo_env_def)
  have h3: "get_docusign_documents ?e3 ((self_signature template_state)\<lparr>status := ''sent''\<rparr>)
             = Inr (1 # [])"
    by (simp add: demo_env_def)
  have x: "fst (update_signature ?e ''completed'' None signed_state) = Some (Raised ''disk full'')"
    by (simp add: model_defs demo_defs)
  have x2: "fst (update_signature ?e2 ''completed'' None signed_state) = Some (Raised ''read-only'')"
    by (simp add: model_defs demo_defs)
  have x3: "fst (update_signature ?e3 ''sent'' None template_state) = Some (Raised ''slugify'')"
    by (simp add: model_defs demo_defs)
  from stream_closed_on_every_path [OF _ h, where dt = None]
       stream_closed_on_every_path [OF _ h2, where dt = None]
       stream_closed_on_every_path [OF _ h3, where dt = None]
       h x x2 x3
  show ?thesis
    by (simp add: demo_defs truthy_def)
qed

section \<open>When the backend gives no document\<close>

text \<open>
  C6. The status is written and saved before the backend is asked. When the fetch is
  due and the backend raises \<open>x\<close>, \<open>update_signature\<close> raises \<open>x\<close>, and all that has
  changed is the status of \<open>self.signature\<close>, its row (which holds the new status) and the
  log of fetches: the document of the signature and the stored files are as before.
\<close>

theorem status_persisted_when_fetch_fails:
  "st = ''completed'' \<or> \<not> truthy (document (self_signature s)) \<Longrightarrow>
   get_docusign_documents e ((self_signature s)\<lparr>status := st\<rparr>) = Inl x \<Longrightarrow>
   update_signature e st dt s =
     (Some x,
      s\<lparr>self_signature := (self_signature s)\<lparr>status := st\<rparr>,
        signatures := (signatures s)
          (pk (self_signature s) \<mapsto> (self_signature s)\<lparr>status := st\<rparr>),
        fetched := fetched s @ [(self_signature s)\<lparr>status := st\<rparr>]\<rparr>)"
  by (auto simp: update_signature_def next_document_def signature_save_def Let_def)

theorem status_persisted_when_fetch_fails_witness:
  "get_docusign_documents (demo_env\<lparr>get_docusign_documents := (\<lambda>sig. Inl (Raised ''timeout''))\<rparr>)
     ((self_signature template_state)\<lparr>status := ''completed''\<rparr>) = Inl (Raised ''timeout'') \<and>
   fst (update_signature (demo_env\<lparr>get_docusign_documents := (\<lambda>sig. Inl (Raised ''timeout''))\<rparr>)
          ''completed'' None template_state) = Some (Raised ''timeout'') \<and>
   map_option status
     (signatures (snd (update_signature (demo_env\<lparr>get_docusign_documents := (\<lambda>sig. Inl (Raised ''timeout''))\<rparr>)
          ''completed'' None template_state)) 7) = Some ''completed'' \<and>
   document (self_signature (snd (update_signature (demo_env\<lparr>get_docusign_documents := (\<lambda>sig. Inl (Raised ''timeout''))\<rparr>)
          ''completed'' None template_state))) = None \<and>
   files (snd (update_signature (demo_env\<lparr>get_docusign_documents := (\<lambda>sig. Inl (Raised ''timeout''))\<rparr>)
          ''completed'' None template_state)) = files template_state"
proof -
  let ?e = "demo_env\<lparr>get_docusign_documents := (\<lambda>sig. Inl (Raised ''timeout''))\<rparr>"
  have h: "get_docusign_documents ?e ((self_signature template_state)\<lparr>status := ''completed''\<rparr>)
             = Inl (Raised ''timeout'')"
    by simp
  from status_persisted_when_fetch_fails [OF _ h, where dt = None] h show ?thesis
    by (simp add: demo_defs)
qed

text \<open>
  C10. When the fetch is due and the backend's generator yields nothing, \<open>.next()\<close>
  raises \<open>StopIteration\<close>, which \<open>update_signature\<close> lets through: it is neither
  \<open>DoesNotExist\<close> nor an exception of the backend. The status is saved by then, and the
  document of the signature and the stored files are as before.
\<close>

theorem empty_document_sequence:
  "st = ''completed'' \<or> \<not> truthy (document (self_signature s)) \<Longrightarrow>
   get_docusign_documents e ((self_signature s)\<lparr>status := st\<rparr>) = Inr [] \<Longrightarrow>
   update_signature e st dt s =
     (Some StopIteration,
      s\<lparr>self_signature := (self_signature s)\<lparr>status := st\<rparr>,
        signatures := (signatures s)
          (pk (self_signature s) \<mapsto> (self_signature s)\<lparr>status := st\<rparr>),
        fetched := fetched s @ [(self_signature s)\<lparr>status := st\<rparr>]\<rparr>)"
  by (auto simp: update_signature_def next_document_def signature_save_def Let_def)

theorem empty_document_sequence_witness:
  "\<not> truthy (document (self_signature template_state)) \<and>
   get_docusign_documents (demo_env\<lparr>get_docusign_documents := (\<lambda>sig. Inr [])\<rparr>)
     ((self_signature template_state)\<lparr>status := ''sent''\<rparr>) = Inr [] \<and>
   fst (update_signature (demo_env\<lparr>get_docusign_documents := (\<lambda>sig. Inr [])\<rparr>)
          ''sent'' None template_state) = Some StopIteration \<and>
   map_option status
     (signatures (snd (update_signature (demo_env\<lparr>get_docusign_documents := (\<lambda>sig. Inr [])\<rparr>)
          ''sent'' None template_state)) 7) = Some ''sent'' \<and>
   document (self_signature (snd (update_signature (demo_env\<lparr>get_docusign_documents := (\<lambda>sig. Inr [])\<rparr>)
          ''sent'' None template_state))) = None \<and>
   files (snd (update_signature (demo_env\<lparr>get_docusign_documents := (\<lambda>sig. Inr [])\<rparr>)
          ''sent'' None template_state)) = files template_state"
proof -
  let ?e = "demo_env\<lparr>get_docusign_documents := (\<lambda>sig. Inr [])\<rparr>"
  have t: "\<not> truthy (document (self_signature template_state))"
    by (simp add: demo_defs truthy_def)
  have h: "get_docusign_documents ?e ((self_signature template_state)\<lparr>status := ''sent''\<rparr>) = Inr []"
    by simp
  from empty_document_sequence [OF _ h, where dt = None] t h show ?thesis
    by (simp add: demo_defs)
qed

section \<open>The timestamp of the signature\<close>

text \<open>
  C9 asks that \<open>update_signature\<close> set \<open>status_datetime\<close> with the status, as
  \<open>update_signer\<close> does. It does not: whatever the arguments and the environment,
  \<open>self.signature\<close> and its row keep the \<open>status_datetime\<close> the instance had before the
  call. The parameter \<open>status_datetime\<close> is accepted and never read.
\<close>

theorem update_signature_keeps_status_datetime:
  "status_datetime (self_signature (snd (update_signature e st dt s)))
     = status_datetime (self_signature s)
   \<and> map_option status_datetime
       (signatures (snd (update_signature e st dt s)) (pk (self_signature s)))
     = Some (status_datetime (self_signature s))"
  by (auto simp: update_signature_def next_document_def signature_save_def Let_def
           split: sum.splits list.splits prod.splits
           dest: replace_document_columns replace_document_row_datetime)

theorem update_signature_keeps_status_datetime_witness:
  "now demo_env = 200 \<and>
   status (self_signature (snd (update_signature demo_env ''completed'' None template_state)))
     = ''completed'' \<and>
   status_datetime (self_signature (snd (update_signature demo_env ''completed'' None template_state)))
     = 100 \<and>
   map_option status_datetime
     (signatures (snd (update_signature demo_env ''completed'' None template_state)) 7) = Some 100 \<and>
   status_datetime (self_signature (snd (update_signature demo_env ''sent'' (Some 150) signed_state)))
     = 100 \<and>
   map_option status_datetime
     (signatures (snd (update_signature demo_env ''sent'' (Some 150) signed_state)) 7) = Some 100"
  using update_signature_keeps_status_datetime [of demo_env "''completed''" None template_state]
        update_signature_keeps_status_datetime [of demo_env "''sent''" "Some 150" signed_state]
        update_signature_status [of demo_env "''completed''" None template_state]
  by (simp add: demo_defs)

end
